theory Spec2Isabelle
  imports Main "HOL-Library.Word" "HOL-Library.Sublist"
begin

section \<open>Errors, outcomes and the outside world\<close>

text \<open>
  The commands of the \<open>rag\<close> and \<open>srag\<close> binaries are glue between a command line and
  a handful of collaborators: the database, the OpenAI-style embedding and completion clients,
  the reranker client, the HTTP server, the file system and the JSON decoder. Each command is
  embedded as a function from the results of those collaborators (the record \<open>world\<close>) and
  the parsed command line (the record \<open>command\<close>) to an \<open>outcome\<close>: the collaborator calls
  and prints it made, in order, and how it ended.
\<close>

text \<open>
  A Go \<open>error\<close> value. \<open>New msg\<close> is \<open>errors.New(msg)\<close> as the commands build it,
  \<open>ErrServerClosed\<close> is the sentinel \<open>http.ErrServerClosed\<close>, \<open>Foreign msg\<close> is an
  error produced inside a collaborator (opaque to the commands, named by its message) and
  \<open>Wrapped msg inner\<close> is an error whose \<open>Unwrap\<close> yields \<open>inner\<close>.
  The walk-control sentinels \<open>fs.SkipDir\<close> and \<open>fs.SkipAll\<close> are not errors of this
  type: the Go documentation states that no function returns them as an error.
\<close>

datatype error =
    New string
  | ErrServerClosed
  | Foreign string
  | Wrapped string error

text \<open>\<open>errors.Is(err, target)\<close>: \<open>target\<close> occurs on the \<open>Unwrap\<close> chain of \<open>err\<close>.\<close>

fun errors_Is :: "error \<Rightarrow> error \<Rightarrow> bool" where
  "errors_Is (Wrapped msg inner) target = (Wrapped msg inner = target \<or> errors_Is inner target)"
| "errors_Is err target = (err = target)"

text \<open>An opened database: the handle remembers the DSN it was opened with.\<close>

datatype gorm_DB = Handle string

text \<open>\<open>rag.RAG{DB: db, Client: &client, Model: model}\<close>; the client is named by its base URL.\<close>

record RAG =
  DB :: gorm_DB
  Client :: "string option"
  Model :: string

type_synonym float64 = "64 word"

record Embedding =
  Embedding :: "float64 list"

record CreateEmbeddingResponse =
  Data :: "Embedding list"

record CompletionChoice =
  Text :: string

record Completion =
  Choices :: "CompletionChoice list"

record RerankRequest =
  rr_Model :: string
  Query :: string
  Documents :: "string list"
  TopN :: int

text \<open>
  Modelled from the spec: \<open>rag.Chunk\<close> is declared in package \<open>rag/v1\<close>, which is not among
  the sources. The commands read the fields \<open>ID\<close>, \<open>RawDocument\<close>, \<open>ChunkID\<close> and
  \<open>Text\<close> of a stored chunk.
\<close>

record Chunk =
  ID :: string
  RawDocument :: string
  ChunkID :: int
  Chunk_Text :: string

text \<open>
  Modelled from the spec: \<open>rag.Document\<close> is declared in package \<open>rag/v1\<close>, which is not
  among the sources. The spec describes the ingestion descriptor as a raw-document reference
  plus an ordered list of chunk records (\<open>chunk_index\<close>, \<open>text\<close>).
\<close>

record chunk_record =
  chunk_index :: int
  chunk_text :: string

record Document =
  raw_document :: string
  chunk_records :: "chunk_record list"

text \<open>What a command does to the outside, in order.\<close>

datatype effect =
    Call_OpenDB string
  | Call_DB gorm_DB
  | Call_Ping gorm_DB
  | Call_Embeddings_New string string string
  | Call_Rerank string RerankRequest
  | Call_Completions_New string string string
  | Call_Start string
  | Call_ReadFile string
  | Call_UpsertDocumentChunks RAG Document
  | Call_ComputeEmbeddings RAG bool
  | Call_QueryDocuments RAG string int
  | Call_GetDocumentChunk RAG string
  | Println string
  | PrintTable "string list" "(string \<times> string \<times> int) list"

text \<open>How an action ends: it returns an \<open>error\<close> (\<open>None\<close> is \<open>nil\<close>) or it panics.\<close>

datatype ending = Return "error option" | Panic string

record outcome =
  effects :: "effect list"
  result :: ending

definition returns :: "error option \<Rightarrow> outcome" where
  "returns r = \<lparr>effects = [], result = Return r\<rparr>"

definition return_nil :: outcome where
  "return_nil = returns None"

definition return_err :: "error \<Rightarrow> outcome" where
  "return_err err = returns (Some err)"

definition panic :: "string \<Rightarrow> outcome" where
  "panic msg = \<lparr>effects = [], result = Panic msg\<rparr>"

text \<open>\<open>emit e rest\<close>: the effect \<open>e\<close> happens, then the program goes on as \<open>rest\<close>.\<close>

definition emit :: "effect \<Rightarrow> outcome \<Rightarrow> outcome" where
  "emit e rest = rest\<lparr>effects := e # effects rest\<rparr>"

text \<open>
  The parsed command line, as the actions read it: \<open>command.String(name)\<close>,
  \<open>command.Bool(name)\<close>, \<open>command.Int(name)\<close> (here \<open>IntFlag\<close>) and
  \<open>command.StringArg(name)\<close>, with the
  flag defaults and environment sources already applied by the CLI framework.
\<close>

record command =
  String :: "string \<Rightarrow> string"
  Bool :: "string \<Rightarrow> bool"
  IntFlag :: "string \<Rightarrow> int"
  StringArg :: "string \<Rightarrow> string"

text \<open>
  JSON values. The bytes of a file are represented by what the JSON grammar reads from
  them: \<open>None\<close> when they do not start with a JSON text, \<open>Some j\<close> for the value they
  denote.
\<close>

datatype json =
    JNull
  | JBool bool
  | JNumber int
  | JString string
  | JArray "json list"
  | JObject "(string \<times> json) list"

type_synonym bytes = "json option"

text \<open>
  A directory tree as \<open>filepath.WalkDir\<close> meets it: a file, a directory with its entries
  in the order \<open>os.ReadDir\<close> lists them (sorted by name), or a directory whose listing
  fails. A node is also the \<open>fs.DirEntry\<close> handed to the walk function.
\<close>

datatype fsnode =
    File string
  | Dir string "fsnode list"
  | UnreadableDir string error

fun Name :: "fsnode \<Rightarrow> string" where
  "Name (File name) = name"
| "Name (Dir name ds) = name"
| "Name (UnreadableDir name err) = name"

fun IsDir :: "fsnode \<Rightarrow> bool" where
  "IsDir (File name) = False"
| "IsDir (Dir name ds) = True"
| "IsDir (UnreadableDir name err) = True"

text \<open>
  The declaration of \<open>rag.Document\<close> enters as a parameter: which JSON object keys name
  which field of the descriptor and of a chunk record (\<open>None\<close>: no field matches the key).
\<close>

datatype document_field = F_raw_document | F_chunks

datatype chunk_field = F_chunk_index | F_text

text \<open>The results of the collaborators, as functions of the arguments they are called with.\<close>

record world =
  rag_OpenDB :: "string \<Rightarrow> error + gorm_DB"
  db_DB :: "gorm_DB \<Rightarrow> error + gorm_DB"
  rawDB_Ping :: "gorm_DB \<Rightarrow> error option"
  Embeddings_New :: "string \<Rightarrow> string \<Rightarrow> string \<Rightarrow> error + CreateEmbeddingResponse"
  Rerank :: "string \<Rightarrow> RerankRequest \<Rightarrow> error option"
  Completions_New :: "string \<Rightarrow> string \<Rightarrow> string \<Rightarrow> error + Completion"
  Server_Start :: "RAG \<Rightarrow> string \<Rightarrow> error option"
  glob_Compile :: "string \<Rightarrow> error + (string \<Rightarrow> bool)"
  os_Lstat :: "string \<Rightarrow> error + fsnode"
  os_ReadFile :: "string \<Rightarrow> error + bytes"
  Document_field :: "string \<Rightarrow> document_field option"
  chunk_record_field :: "string \<Rightarrow> chunk_field option"
  UpsertDocumentChunks :: "RAG \<Rightarrow> Document \<Rightarrow> error option"
  ComputeEmbeddings :: "RAG \<Rightarrow> bool \<Rightarrow> error option"
  QueryDocuments :: "RAG \<Rightarrow> string \<Rightarrow> int \<Rightarrow> error + Chunk list"
  GetDocumentChunk :: "RAG \<Rightarrow> string \<Rightarrow> Chunk option \<times> error option"

section \<open>The health command\<close>

text \<open>
  \<open>healthCmd.Action\<close> of \<open>cmd/srag/health.go\<close>. Every \<open>if err != nil { return err }\<close>
  of the source is a branch returning the collaborator's error unchanged. The action is one
  straight-line function; it is written here as its four blocks, last block first, each block
  ending in the next one.
\<close>

text \<open>Lines 87 to 110: the completion (assistant) service, then the final message.\<close>

definition health_assistant :: "world \<Rightarrow> command \<Rightarrow> outcome" where
  "health_assistant w command =
    (let assistantBaseURL = String command ''assistant-base-url'' in
     if assistantBaseURL = [] then return_err (New ''assistant-base-url is required'')
     else let assistantModel = String command ''assistant-model'' in
     if assistantModel = [] then return_err (New ''assistant-model is required'')
     else emit (Call_Completions_New assistantBaseURL assistantModel ''Hello world'')
    (case Completions_New w assistantBaseURL assistantModel ''Hello world'' of
       Inl err \<Rightarrow> return_err err
     | Inr assistantResponse \<Rightarrow>
       if length (Choices assistantResponse) = 0
          \<or> length (Text (Choices assistantResponse ! 0)) = 0
       then return_err (New ''empty response'')
       else emit (Println ''OK, database/embedding/reranker/assistant are operational'')
            return_nil))"

text \<open>Lines 68 to 85: the reranker service.\<close>

definition health_reranker :: "world \<Rightarrow> command \<Rightarrow> outcome" where
  "health_reranker w command =
    (let rerankerBaseURL = String command ''reranker-base-url'' in
     if rerankerBaseURL = [] then return_err (New ''reranker-base-url is required'')
     else let rerankerModel = String command ''reranker-model'' in
     if rerankerModel = [] then return_err (New ''reranker-model is required'')
     else let request = \<lparr>rr_Model = rerankerModel, Query = ''Where is Munich?'',
                          Documents = [''Munich is in Germany.'', ''The sky is blue.''],
                          TopN = 3\<rparr> in
     emit (Call_Rerank rerankerBaseURL request)
    (case Rerank w rerankerBaseURL request of
       Some err \<Rightarrow> return_err err
     | None \<Rightarrow> health_assistant w command))"

text \<open>Lines 45 to 66: the embedding service.\<close>

definition health_embedding :: "world \<Rightarrow> command \<Rightarrow> outcome" where
  "health_embedding w command =
    (let embeddingBaseURL = String command ''embedding-base-url'' in
     if embeddingBaseURL = [] then return_err (New ''embedding-base-url is required'')
     else let embeddingModel = String command ''embedding-model'' in
     if embeddingModel = [] then return_err (New ''embedding-model is required'')
     else emit (Call_Embeddings_New embeddingBaseURL embeddingModel ''Hello world'')
    (case Embeddings_New w embeddingBaseURL embeddingModel ''Hello world'' of
       Inl err \<Rightarrow> return_err err
     | Inr embeddingResponse \<Rightarrow>
       if length (Data embeddingResponse) = 0
          \<or> length (Embedding (Data embeddingResponse ! 0)) = 0
       then return_err (New ''empty response'')
       else health_reranker w command))"

text \<open>Lines 28 to 43: the database, and from there the rest of the action.\<close>

definition healthCmd :: "world \<Rightarrow> command \<Rightarrow> outcome" where
  "healthCmd w command =
    (let dsn = String command ''dsn'' in
     if dsn = [] then return_err (New ''dsn is required'')
     else emit (Call_OpenDB dsn)
    (case rag_OpenDB w dsn of Inl err \<Rightarrow> return_err err | Inr db \<Rightarrow>
     emit (Call_DB db)
    (case db_DB w db of Inl err \<Rightarrow> return_err err | Inr rawDB \<Rightarrow>
     emit (Call_Ping rawDB)
    (case rawDB_Ping w rawDB of
       Some err \<Rightarrow> return_err err
     | None \<Rightarrow> health_embedding w command))))"

section \<open>The scan command\<close>

subsection \<open>The JSON decoder\<close>

text \<open>
  \<open>json.NewDecoder(bytes.NewReader(buf))\<close>, \<open>decoder.DisallowUnknownFields()\<close> and
  \<open>decoder.Decode(&chunks)\<close>. The decoder is the library's; it is modelled by its
  documented contract for decoding a JSON object into a struct: each key of the object is
  matched against the fields of the destination, a value of the wrong JSON type is an error,
  \<open>null\<close> leaves the field as it is, and a key that matches no field is skipped, or is an
  error once \<open>DisallowUnknownFields\<close> has been called.
\<close>

record decoder =
  input :: bytes
  disallowUnknownFields :: bool

definition NewDecoder :: "bytes \<Rightarrow> decoder" where
  "NewDecoder buf = \<lparr>input = buf, disallowUnknownFields = False\<rparr>"

definition DisallowUnknownFields :: "decoder \<Rightarrow> decoder" where
  "DisallowUnknownFields d = d\<lparr>disallowUnknownFields := True\<rparr>"

definition unknown_field :: "string \<Rightarrow> error" where
  "unknown_field k = Foreign (''json: unknown field '' @ k)"

definition cannot_unmarshal :: error where
  "cannot_unmarshal = Foreign ''json: cannot unmarshal value into Go struct field''"

definition syntax_error :: error where
  "syntax_error = Foreign ''json: invalid JSON text''"

fun decode_chunk_record ::
  "(string \<Rightarrow> chunk_field option) \<Rightarrow> bool \<Rightarrow> (string \<times> json) list \<Rightarrow> chunk_record
    \<Rightarrow> error + chunk_record" where
  "decode_chunk_record field strict [] c = Inr c"
| "decode_chunk_record field strict ((k, v) # kvs) c =
    (case field k of
       Some F_chunk_index \<Rightarrow>
         (case v of
            JNumber n \<Rightarrow> decode_chunk_record field strict kvs (c\<lparr>chunk_index := n\<rparr>)
          | JNull \<Rightarrow> decode_chunk_record field strict kvs c
          | _ \<Rightarrow> Inl cannot_unmarshal)
     | Some F_text \<Rightarrow>
         (case v of
            JString s \<Rightarrow> decode_chunk_record field strict kvs (c\<lparr>chunk_text := s\<rparr>)
          | JNull \<Rightarrow> decode_chunk_record field strict kvs c
          | _ \<Rightarrow> Inl cannot_unmarshal)
     | None \<Rightarrow>
         if strict then Inl (unknown_field k) else decode_chunk_record field strict kvs c)"

fun decode_chunks ::
  "(string \<Rightarrow> chunk_field option) \<Rightarrow> bool \<Rightarrow> json list \<Rightarrow> error + chunk_record list" where
  "decode_chunks field strict [] = Inr []"
| "decode_chunks field strict (j # js) =
    (case (case j of
             JObject kvs \<Rightarrow>
               decode_chunk_record field strict kvs \<lparr>chunk_index = 0, chunk_text = []\<rparr>
           | JNull \<Rightarrow> Inr \<lparr>chunk_index = 0, chunk_text = []\<rparr>
           | _ \<Rightarrow> Inl cannot_unmarshal) of
       Inl err \<Rightarrow> Inl err
     | Inr c \<Rightarrow>
         (case decode_chunks field strict js of
            Inl err \<Rightarrow> Inl err
          | Inr cs \<Rightarrow> Inr (c # cs)))"

fun decode_Document ::
  "(string \<Rightarrow> document_field option) \<Rightarrow> (string \<Rightarrow> chunk_field option) \<Rightarrow> bool
    \<Rightarrow> (string \<times> json) list \<Rightarrow> Document \<Rightarrow> error + Document" where
  "decode_Document dfield cfield strict [] doc = Inr doc"
| "decode_Document dfield cfield strict ((k, v) # kvs) doc =
    (case dfield k of
       Some F_raw_document \<Rightarrow>
         (case v of
            JString s \<Rightarrow> decode_Document dfield cfield strict kvs (doc\<lparr>raw_document := s\<rparr>)
          | JNull \<Rightarrow> decode_Document dfield cfield strict kvs doc
          | _ \<Rightarrow> Inl cannot_unmarshal)
     | Some F_chunks \<Rightarrow>
         (case v of
            JArray js \<Rightarrow>
              (case decode_chunks cfield strict js of
                 Inl err \<Rightarrow> Inl err
               | Inr cs \<Rightarrow> decode_Document dfield cfield strict kvs (doc\<lparr>chunk_records := cs\<rparr>))
          | JNull \<Rightarrow> decode_Document dfield cfield strict kvs doc
          | _ \<Rightarrow> Inl cannot_unmarshal)
     | None \<Rightarrow>
         if strict then Inl (unknown_field k)
         else decode_Document dfield cfield strict kvs doc)"

text \<open>\<open>decoder.Decode(&chunks)\<close> with \<open>var chunks rag.Document\<close>, the zero value.\<close>

definition Decode :: "world \<Rightarrow> decoder \<Rightarrow> error + Document" where
  "Decode w d =
    (case input d of
       None \<Rightarrow> Inl syntax_error
     | Some (JObject kvs) \<Rightarrow>
         decode_Document (Document_field w) (chunk_record_field w) (disallowUnknownFields d) kvs
           \<lparr>raw_document = [], chunk_records = []\<rparr>
     | Some JNull \<Rightarrow> Inr \<lparr>raw_document = [], chunk_records = []\<rparr>
     | Some _ \<Rightarrow> Inl cannot_unmarshal)"

subsection \<open>The directory walk\<close>

text \<open>
  \<open>filepath.WalkDir(root, fn)\<close> of the Go standard library. The walk function is called on
  the root and then on every entry, directories before their entries, entries in listing
  order. A directory whose listing fails is reported by a second call carrying the error.
  The first call of \<open>fn\<close> that does not return \<open>nil\<close> ends the walk with that result.
\<close>

type_synonym WalkDirFunc = "string \<Rightarrow> fsnode option \<Rightarrow> error option \<Rightarrow> outcome"

text \<open>Sequencing: \<open>second\<close> runs only if \<open>first\<close> returned \<open>nil\<close>.\<close>

definition and_then :: "outcome \<Rightarrow> outcome \<Rightarrow> outcome" where
  "and_then first second =
    (case result first of
       Return None \<Rightarrow> \<lparr>effects = effects first @ effects second, result = result second\<rparr>
     | _ \<Rightarrow> first)"

text \<open>\<open>filepath.Join(path, name)\<close> on a cleaned path.\<close>

definition Join :: "string \<Rightarrow> string \<Rightarrow> string" where
  "Join path name =
    (if path = [] then name
     else if last path = CHR ''/'' then path @ name
     else path @ ''/'' @ name)"

fun walkDir :: "WalkDirFunc \<Rightarrow> string \<Rightarrow> fsnode \<Rightarrow> outcome"
  and walkDir_entries :: "WalkDirFunc \<Rightarrow> string \<Rightarrow> fsnode list \<Rightarrow> outcome" where
  "walkDir fn path (File name) = fn path (Some (File name)) None"
| "walkDir fn path (Dir name ds) =
    and_then (fn path (Some (Dir name ds)) None) (walkDir_entries fn path ds)"
| "walkDir fn path (UnreadableDir name err) =
    and_then (fn path (Some (UnreadableDir name err)) None)
             (fn path (Some (UnreadableDir name err)) (Some err))"
| "walkDir_entries fn path [] = return_nil"
| "walkDir_entries fn path (d # ds) =
    and_then (walkDir fn (Join path (Name d)) d) (walkDir_entries fn path ds)"

definition WalkDir :: "world \<Rightarrow> string \<Rightarrow> WalkDirFunc \<Rightarrow> outcome" where
  "WalkDir w root fn =
    (case os_Lstat w root of
       Inl err \<Rightarrow> fn root None (Some err)
     | Inr d \<Rightarrow> walkDir fn root d)"

subsection \<open>The action\<close>

text \<open>The function literal handed to \<open>filepath.WalkDir\<close> by \<open>scanCmd.Action\<close>.\<close>

definition scan_visit :: "world \<Rightarrow> (string \<Rightarrow> bool) \<Rightarrow> RAG \<Rightarrow> WalkDirFunc" where
  "scan_visit w g r path d err =
    (case err of
       Some e \<Rightarrow> return_err e
     | None \<Rightarrow>
    (case d of
       None \<Rightarrow> panic ''invalid memory address or nil pointer dereference''
     | Some d \<Rightarrow>
       if IsDir d then return_nil
       else if \<not> g (Name d) then return_nil
       else emit (Call_ReadFile path)
      (case os_ReadFile w path of Inl e \<Rightarrow> return_err e | Inr buf \<Rightarrow>
      (let decoder = DisallowUnknownFields (NewDecoder buf) in
       case Decode w decoder of Inl e \<Rightarrow> return_err e | Inr chunks \<Rightarrow>
       emit (Call_UpsertDocumentChunks r chunks)
            (returns (UpsertDocumentChunks w r chunks))))))"

definition scanCmd :: "world \<Rightarrow> command \<Rightarrow> outcome" where
  "scanCmd w command =
    (let path = StringArg command ''path'' in
     if path = [] then return_err (New ''path is required'')
     else case glob_Compile w (String command ''glob'') of
       Inl err \<Rightarrow> return_err err
     | Inr g \<Rightarrow>
       emit (Call_OpenDB (String command ''dsn''))
      (case rag_OpenDB w (String command ''dsn'') of Inl err \<Rightarrow> return_err err | Inr db \<Rightarrow>
      (let r = \<lparr>DB = db, Client = None, Model = []\<rparr> in
       WalkDir w path (scan_visit w g r))))"

section \<open>The serve, compute, search and get commands\<close>

text \<open>
  \<open>serveCmd.Action\<close>. \<open>s.Start\<close> blocks until the server stops; what it returns is the
  collaborator's answer. The goroutine that waits for the cancellation of \<open>ctx\<close> and calls
  \<open>s.Shutdown\<close> runs concurrently with \<open>Start\<close> and discards the result of
  \<open>Shutdown\<close>; it reaches the action only through what \<open>Start\<close> returns.
\<close>

definition serveCmd :: "world \<Rightarrow> command \<Rightarrow> outcome" where
  "serveCmd w command =
    (let baseURL = String command ''base_url'';
         model = String command ''model'';
         dsn = String command ''dsn'' in
     emit (Call_OpenDB dsn)
    (case rag_OpenDB w dsn of Inl err \<Rightarrow> return_err err | Inr db \<Rightarrow>
    (let r = \<lparr>DB = db, Client = Some baseURL, Model = model\<rparr> in
     emit (Call_Start (String command ''bind''))
    (case Server_Start w r (String command ''bind'') of
       None \<Rightarrow> return_nil
     | Some err \<Rightarrow> if errors_Is err ErrServerClosed then return_nil else return_err err))))"

text \<open>The declared default of the \<open>force\<close> flag of \<open>computeCmd\<close>: \<open>Value: false\<close>.\<close>

definition computeCmd_force_Value :: bool where
  "computeCmd_force_Value = False"

definition computeCmd :: "world \<Rightarrow> command \<Rightarrow> outcome" where
  "computeCmd w command =
    (let baseURL = String command ''base_url'';
         model = String command ''model'';
         dsn = String command ''dsn'';
         force = Bool command ''force'' in
     emit (Call_OpenDB dsn)
    (case rag_OpenDB w dsn of Inl err \<Rightarrow> return_err err | Inr db \<Rightarrow>
    (let r = \<lparr>DB = db, Client = Some baseURL, Model = model\<rparr> in
     emit (Call_ComputeEmbeddings r (\<not> force))
          (returns (ComputeEmbeddings w r (\<not> force))))))"

definition searchCmd :: "world \<Rightarrow> command \<Rightarrow> outcome" where
  "searchCmd w command =
    (let query = StringArg command ''query'' in
     if query = [] then return_err (New ''query is required'')
     else let baseURL = String command ''base_url'';
              model = String command ''model'';
              dsn = String command ''dsn'';
              limit = IntFlag command ''limit'' in
     emit (Call_OpenDB dsn)
    (case rag_OpenDB w dsn of Inl err \<Rightarrow> return_err err | Inr db \<Rightarrow>
    (let r = \<lparr>DB = db, Client = Some baseURL, Model = model\<rparr> in
     emit (Call_QueryDocuments r query limit)
    (case QueryDocuments w r query limit of Inl err \<Rightarrow> return_err err | Inr chunks \<Rightarrow>
     emit (PrintTable [''ID'', ''Raw document'', ''Chunk ID'']
             (map (\<lambda>chunk. (ID chunk, RawDocument chunk, ChunkID chunk)) chunks))
          return_nil))))"

text \<open>
  \<open>getChunkCmd.Action\<close>. \<open>c, err := r.GetDocumentChunk(id)\<close> yields a pointer and an
  error; the action reads \<open>c.Text\<close> without looking at either, which panics on a \<open>nil\<close>
  pointer.
\<close>

definition getChunkCmd :: "world \<Rightarrow> command \<Rightarrow> outcome" where
  "getChunkCmd w command =
    (let id = StringArg command ''id'' in
     if id = [] then return_err (New ''id is required'')
     else let dsn = String command ''dsn'' in
     emit (Call_OpenDB dsn)
    (case rag_OpenDB w dsn of Inl err \<Rightarrow> return_err err | Inr db \<Rightarrow>
    (let r = \<lparr>DB = db, Client = None, Model = []\<rparr> in
     emit (Call_GetDocumentChunk r id)
    (case GetDocumentChunk w r id of (c, err) \<Rightarrow>
    (case c of
       None \<Rightarrow> panic ''invalid memory address or nil pointer dereference''
     | Some chunk \<Rightarrow> emit (Println (Chunk_Text chunk)) return_nil)))))"

section \<open>The process\<close>

text \<open>
  \<open>cmd.Run(ctx, os.Args)\<close> runs the action of the subcommand named on the command line and
  returns its error. The subcommands are those of \<open>cmd.Commands\<close> that this development
  covers.
\<close>

datatype subcommand = serve | scan | compute | search | get

definition cmd_Run :: "world \<Rightarrow> subcommand \<Rightarrow> command \<Rightarrow> outcome" where
  "cmd_Run w sub command =
    (case sub of
       serve \<Rightarrow> serveCmd w command
     | scan \<Rightarrow> scanCmd w command
     | compute \<Rightarrow> computeCmd w command
     | search \<Rightarrow> searchCmd w command
     | get \<Rightarrow> getChunkCmd w command)"

text \<open>
  \<open>main\<close>: run the command and, if it returned an error, log it at error level under the
  message \<open>Unexpected error\<close>. \<open>main\<close> then returns, and a Go process whose \<open>main\<close>
  returns exits with status 0. A panic that nothing recovers ends the process with status 2.
\<close>

record process =
  performed :: "effect list"
  logged :: "(string \<times> error) list"
  exit_code :: nat

definition main :: "world \<Rightarrow> subcommand \<Rightarrow> command \<Rightarrow> process" where
  "main w sub command =
    (let out = cmd_Run w sub command in
     case result out of
       Return None \<Rightarrow> \<lparr>performed = effects out, logged = [], exit_code = 0\<rparr>
     | Return (Some err) \<Rightarrow>
         \<lparr>performed = effects out, logged = [(''Unexpected error'', err)], exit_code = 0\<rparr>
     | Panic msg \<Rightarrow> \<lparr>performed = effects out, logged = [], exit_code = 2\<rparr>)"

section \<open>Notions used to state the properties\<close>

text \<open>
  The four dependencies of the health check, the dependency a collaborator call belongs
  to, and the sequence of dependencies an outcome has probed: \<open>deps\<close> lists the dependency
  of every call in order, \<open>probed\<close> merges the consecutive calls to the same dependency.
\<close>

datatype dependency = Dep_storage | Dep_embedding | Dep_reranker | Dep_completion

fun dependency_of :: "effect \<Rightarrow> dependency option" where
  "dependency_of (Call_OpenDB dsn) = Some Dep_storage"
| "dependency_of (Call_DB db) = Some Dep_storage"
| "dependency_of (Call_Ping db) = Some Dep_storage"
| "dependency_of (Call_Embeddings_New url model inp) = Some Dep_embedding"
| "dependency_of (Call_Rerank url req) = Some Dep_reranker"
| "dependency_of (Call_Completions_New url model prompt) = Some Dep_completion"
| "dependency_of e = None"

definition deps :: "outcome \<Rightarrow> dependency list" where
  "deps out = List.map_filter dependency_of (effects out)"

definition probed :: "outcome \<Rightarrow> dependency list" where
  "probed out = remdups_adj (deps out)"

text \<open>
  A dependency passes its check when its flags are set and its canary call answers as the
  check requires. \<open>embedding_answer\<close> and \<open>completion_answer\<close> are what the two
  OpenAI-style endpoints answer to the canary request of the command line at hand.
\<close>

definition storage_passes :: "world \<Rightarrow> command \<Rightarrow> bool" where
  "storage_passes w c =
    (String c ''dsn'' \<noteq> [] \<and>
     (case rag_OpenDB w (String c ''dsn'') of
        Inl err \<Rightarrow> False
      | Inr db \<Rightarrow>
          (case db_DB w db of
             Inl err \<Rightarrow> False
           | Inr rawDB \<Rightarrow> rawDB_Ping w rawDB = None)))"

definition embedding_answer :: "world \<Rightarrow> command \<Rightarrow> error + CreateEmbeddingResponse" where
  "embedding_answer w c =
    Embeddings_New w (String c ''embedding-base-url'') (String c ''embedding-model'') ''Hello world''"

definition embedding_passes :: "world \<Rightarrow> command \<Rightarrow> bool" where
  "embedding_passes w c =
    (String c ''embedding-base-url'' \<noteq> [] \<and> String c ''embedding-model'' \<noteq> [] \<and>
     (case embedding_answer w c of
        Inl err \<Rightarrow> False
      | Inr response \<Rightarrow>
          (case Data response of [] \<Rightarrow> False | d # ds \<Rightarrow> Embedding d \<noteq> [])))"

definition reranker_passes :: "world \<Rightarrow> command \<Rightarrow> bool" where
  "reranker_passes w c =
    (String c ''reranker-base-url'' \<noteq> [] \<and> String c ''reranker-model'' \<noteq> [] \<and>
     Rerank w (String c ''reranker-base-url'')
       \<lparr>rr_Model = String c ''reranker-model'', Query = ''Where is Munich?'',
        Documents = [''Munich is in Germany.'', ''The sky is blue.''], TopN = 3\<rparr> = None)"

definition completion_answer :: "world \<Rightarrow> command \<Rightarrow> error + Completion" where
  "completion_answer w c =
    Completions_New w (String c ''assistant-base-url'') (String c ''assistant-model'') ''Hello world''"

definition completion_passes :: "world \<Rightarrow> command \<Rightarrow> bool" where
  "completion_passes w c =
    (String c ''assistant-base-url'' \<noteq> [] \<and> String c ''assistant-model'' \<noteq> [] \<and>
     (case completion_answer w c of
        Inl err \<Rightarrow> False
      | Inr response \<Rightarrow>
          (case Choices response of [] \<Rightarrow> False | ch # chs \<Rightarrow> Text ch \<noteq> [])))"

text \<open>
  A file holds an unknown field when its top-level JSON object has a key that matches no
  field of the descriptor, or when one of the objects under its chunk list has a key that
  matches no field of a chunk record.
\<close>

definition chunk_has_unknown_field :: "world \<Rightarrow> json \<Rightarrow> bool" where
  "chunk_has_unknown_field w j =
    (case j of
       JObject kvs \<Rightarrow> list_ex (\<lambda>(k, v). chunk_record_field w k = None) kvs
     | _ \<Rightarrow> False)"

definition has_unknown_field :: "world \<Rightarrow> bytes \<Rightarrow> bool" where
  "has_unknown_field w buf =
    (case buf of
       Some (JObject kvs) \<Rightarrow>
         list_ex (\<lambda>(k, v).
           case Document_field w k of
             None \<Rightarrow> True
           | Some F_raw_document \<Rightarrow> False
           | Some F_chunks \<Rightarrow>
               (case v of JArray js \<Rightarrow> list_ex (chunk_has_unknown_field w) js | _ \<Rightarrow> False)) kvs
     | _ \<Rightarrow> False)"

text \<open>
  The calls of the walk function that a walk makes when no call fails, in order, and the
  run of a walk function over such a sequence up to its first failure. \<open>file_failure\<close> is
  the error, if any, that reading, decoding or upserting the file at a path produces.
\<close>

type_synonym visit = "string \<times> fsnode option \<times> error option"

fun visits :: "string \<Rightarrow> fsnode \<Rightarrow> visit list"
  and visits_entries :: "string \<Rightarrow> fsnode list \<Rightarrow> visit list" where
  "visits path (File name) = [(path, Some (File name), None)]"
| "visits path (Dir name ds) = (path, Some (Dir name ds), None) # visits_entries path ds"
| "visits path (UnreadableDir name err) =
    [(path, Some (UnreadableDir name err), None), (path, Some (UnreadableDir name err), Some err)]"
| "visits_entries path [] = []"
| "visits_entries path (d # ds) = visits (Join path (Name d)) d @ visits_entries path ds"

fun run_visits :: "WalkDirFunc \<Rightarrow> visit list \<Rightarrow> outcome" where
  "run_visits fn [] = return_nil"
| "run_visits fn ((path, d, err) # vs) = and_then (fn path d err) (run_visits fn vs)"

definition file_failure :: "world \<Rightarrow> RAG \<Rightarrow> string \<Rightarrow> error option" where
  "file_failure w r path =
    (case os_ReadFile w path of
       Inl e \<Rightarrow> Some e
     | Inr buf \<Rightarrow>
         (case Decode w (DisallowUnknownFields (NewDecoder buf)) of
            Inl e \<Rightarrow> Some e
          | Inr doc \<Rightarrow> UpsertDocumentChunks w r doc))"

section \<open>Example worlds\<close>

text \<open>
  A command line with every flag and argument set, a small directory tree whose second
  descriptor carries a field the schema does not know, and a world in which every
  collaborator answers; the variations of it below fail in one place each.
\<close>

definition example_command :: command where
  "example_command =
    \<lparr>String = (\<lambda>name.
        if name = ''dsn'' then ''postgres://db/rag''
        else if name = ''glob'' then ''*.chunks.json''
        else if name = ''bind'' then '':5000''
        else if name = ''base_url'' \<or> name = ''embedding-base-url'' then ''http://embed/v1''
        else if name = ''model'' \<or> name = ''embedding-model'' then ''bge-m3''
        else if name = ''reranker-base-url'' then ''http://rerank''
        else if name = ''reranker-model'' then ''bge-reranker''
        else if name = ''assistant-base-url'' then ''http://llm/v1''
        else if name = ''assistant-model'' then ''qwen''
        else []),
     Bool = (\<lambda>name. False),
     IntFlag = (\<lambda>name. 3),
     StringArg = (\<lambda>name.
        if name = ''path'' then ''docs''
        else if name = ''query'' then ''Where is Munich?''
        else if name = ''id'' then ''42''
        else [])\<rparr>"

definition example_tree :: fsnode where
  "example_tree =
    Dir ''docs''
      [File ''a.chunks.json'',
       Dir ''more'' [File ''b.chunks.json''],
       File ''notes.txt'',
       File ''z.chunks.json'']"

definition descriptor :: "string \<Rightarrow> (string \<times> json) list" where
  "descriptor source =
    [(''raw_document'', JString source),
     (''chunks'', JArray [JObject [(''chunk_index'', JNumber 0),
                                  (''text'', JString ''Munich is in Germany.'')]])]"

definition example_files :: "string \<Rightarrow> error + bytes" where
  "example_files path =
    (if path = ''docs/a.chunks.json'' then Inr (Some (JObject (descriptor ''a.md'')))
     else if path = ''docs/more/b.chunks.json''
       then Inr (Some (JObject (descriptor ''b.md'' @ [(''author'', JString ''nobody'')])))
     else if path = ''docs/z.chunks.json'' then Inr (Some (JObject (descriptor ''z.md'')))
     else Inl (Foreign ''open: no such file or directory''))"

definition example_world :: world where
  "example_world =
    \<lparr>rag_OpenDB = (\<lambda>dsn. Inr (Handle dsn)),
     db_DB = (\<lambda>db. Inr db),
     rawDB_Ping = (\<lambda>db. None),
     Embeddings_New = (\<lambda>url model inp. Inr \<lparr>Data = [\<lparr>Embedding = [1, 2, 3]\<rparr>]\<rparr>),
     Rerank = (\<lambda>url request. None),
     Completions_New = (\<lambda>url model prompt. Inr \<lparr>Choices = [\<lparr>Text = ''Hi''\<rparr>]\<rparr>),
     Server_Start = (\<lambda>r bind. Some ErrServerClosed),
     glob_Compile = (\<lambda>pattern. Inr (\<lambda>name. drop (length name - 12) name = ''.chunks.json'')),
     os_Lstat = (\<lambda>root. Inr example_tree),
     os_ReadFile = example_files,
     Document_field = (\<lambda>k. if k = ''raw_document'' then Some F_raw_document
                            else if k = ''chunks'' then Some F_chunks else None),
     chunk_record_field = (\<lambda>k. if k = ''chunk_index'' then Some F_chunk_index
                            else if k = ''text'' then Some F_text else None),
     UpsertDocumentChunks = (\<lambda>r doc. None),
     ComputeEmbeddings = (\<lambda>r skip_existing. None),
     QueryDocuments = (\<lambda>r query limit. Inr []),
     GetDocumentChunk = (\<lambda>r ident. (None, Some (Foreign ''record not found'')))\<rparr>"

definition completion_down :: world where
  "completion_down =
    example_world\<lparr>Completions_New := (\<lambda>url model prompt. Inl (Foreign ''context canceled''))\<rparr>"

definition embedding_down :: world where
  "embedding_down =
    example_world\<lparr>Embeddings_New := (\<lambda>url model inp. Inl (Foreign ''context canceled''))\<rparr>"

definition second_vector_only :: CreateEmbeddingResponse where
  "second_vector_only = \<lparr>Data = [\<lparr>Embedding = []\<rparr>, \<lparr>Embedding = [1]\<rparr>]\<rparr>"

definition embedding_second_only :: world where
  "embedding_second_only =
    example_world\<lparr>Embeddings_New := (\<lambda>url model inp. Inr second_vector_only)\<rparr>"

definition no_path :: command where
  "no_path = example_command\<lparr>StringArg := (\<lambda>name. [])\<rparr>"

definition start_fails :: world where
  "start_fails =
    example_world\<lparr>Server_Start :=
      (\<lambda>r bind. Some (Foreign ''listen tcp :5000: bind: address already in use''))\<rparr>"

definition forced :: command where
  "forced = example_command\<lparr>Bool := (\<lambda>name. name = ''force'')\<rparr>"

definition scan_RAG :: RAG where
  "scan_RAG = \<lparr>DB = Handle ''postgres://db/rag'', Client = None, Model = []\<rparr>"

definition chunks_glob :: "string \<Rightarrow> bool" where
  "chunks_glob name = (drop (length name - 12) name = ''.chunks.json'')"

section \<open>Outcomes and sequencing\<close>

lemmas outcome_defs = emit_def return_err_def return_nil_def returns_def panic_def

lemmas example_defs =
  example_command_def example_world_def example_tree_def example_files_def descriptor_def
  completion_down_def embedding_down_def second_vector_only_def embedding_second_only_def
  no_path_def

lemmas example_defs2 = example_defs start_fails_def forced_def scan_RAG_def chunks_glob_def

lemmas health_defs =
  healthCmd_def health_embedding_def health_reranker_def health_assistant_def
  storage_passes_def embedding_passes_def reranker_passes_def completion_passes_def
  embedding_answer_def completion_answer_def

lemmas decode_defs = Decode_def DisallowUnknownFields_def NewDecoder_def unknown_field_def

lemma effects_emit [simp]: "effects (emit e out) = e # effects out"
  by (simp add: emit_def)

lemma result_emit [simp]: "result (emit e out) = result out"
  by (simp add: emit_def)

lemma returns_simps [simp]:
  "effects (returns r) = []" "result (returns r) = Return r"
  "effects return_nil = []" "result return_nil = Return None"
  "effects (return_err err) = []" "result (return_err err) = Return (Some err)"
  "effects (panic msg) = []" "result (panic msg) = Panic msg"
  by (simp_all add: outcome_defs)

lemma deps_simps [simp]:
  "deps (emit e out) = (case dependency_of e of None \<Rightarrow> deps out | Some d \<Rightarrow> d # deps out)"
  "deps (returns r) = []" "deps return_nil = []" "deps (return_err err) = []" "deps (panic msg) = []"
  by (simp_all add: deps_def List.map_filter_simps split: option.split)

lemma probed_deps: "probed out = remdups_adj (deps out)"
  by (simp add: probed_def)

lemma and_then_nil [simp]: "and_then out return_nil = out"
  by (cases out) (auto simp: and_then_def outcome_defs split: ending.split option.split)

lemma nil_and_then [simp]: "and_then return_nil out = out"
  by (simp add: and_then_def outcome_defs)

lemma and_then_assoc: "and_then (and_then a b) c = and_then a (and_then b c)"
  by (auto simp: and_then_def split: ending.split option.split)

lemma and_then_stops: "result a \<noteq> Return None \<Longrightarrow> and_then a b = a"
  by (auto simp: and_then_def split: ending.split option.split)

section \<open>The health command: order, fail-fast, and what it returns\<close>

text \<open>
  Each block of the action succeeds exactly when its dependency and all later ones pass.
\<close>

lemma assistant_ok:
  "(result (health_assistant w c) = Return None) = completion_passes w c"
  unfolding health_assistant_def completion_passes_def completion_answer_def
  by (simp add: Let_def split: sum.split list.split)

lemma reranker_ok:
  "(result (health_reranker w c) = Return None) = (reranker_passes w c \<and> completion_passes w c)"
  unfolding health_reranker_def reranker_passes_def
  by (simp add: Let_def assistant_ok split: option.split)

lemma embedding_ok:
  "(result (health_embedding w c) = Return None) =
     (embedding_passes w c \<and> reranker_passes w c \<and> completion_passes w c)"
  unfolding health_embedding_def embedding_passes_def embedding_answer_def
  by (simp add: Let_def reranker_ok split: sum.split list.split)

lemma health_ok:
  "(result (healthCmd w c) = Return None) =
     (storage_passes w c \<and> embedding_passes w c \<and> reranker_passes w c \<and> completion_passes w c)"
  unfolding healthCmd_def storage_passes_def
  by (simp add: Let_def embedding_ok split: sum.split option.split)

text \<open>
  The dependencies each block probes.
\<close>

lemma assistant_deps:
  "deps (health_assistant w c) = [] \<or> deps (health_assistant w c) = [Dep_completion]"
  unfolding health_assistant_def
  by (simp add: Let_def split: sum.split)

lemma reranker_deps:
  "deps (health_reranker w c) =
     (if String c ''reranker-base-url'' = [] \<or> String c ''reranker-model'' = [] then []
      else if reranker_passes w c then Dep_reranker # deps (health_assistant w c)
      else [Dep_reranker])"
  unfolding health_reranker_def reranker_passes_def
  by (simp add: Let_def split: option.split)

lemma embedding_deps:
  "deps (health_embedding w c) =
     (if String c ''embedding-base-url'' = [] \<or> String c ''embedding-model'' = [] then []
      else if embedding_passes w c then Dep_embedding # deps (health_reranker w c)
      else [Dep_embedding])"
  unfolding health_embedding_def embedding_passes_def embedding_answer_def
  by (simp add: Let_def split: sum.split list.split)

lemma storage_deps:
  "probed (healthCmd w c) =
     (if String c ''dsn'' = [] then []
      else if storage_passes w c then remdups_adj (Dep_storage # deps (health_embedding w c))
      else [Dep_storage])"
  unfolding healthCmd_def storage_passes_def probed_deps
  by (simp add: Let_def split: sum.split option.split)

lemma health_order:
  "prefix (probed (healthCmd w c)) [Dep_storage, Dep_embedding, Dep_reranker, Dep_completion]"
  using assistant_deps [of w c]
  by (auto simp add: storage_deps embedding_deps reranker_deps)

lemma health_fail_fast:
  "(\<not> storage_passes w c \<longrightarrow> set (probed (healthCmd w c)) \<subseteq> {Dep_storage}) \<and>
   (\<not> embedding_passes w c \<longrightarrow> set (probed (healthCmd w c)) \<subseteq> {Dep_storage, Dep_embedding}) \<and>
   (\<not> reranker_passes w c \<longrightarrow>
      set (probed (healthCmd w c)) \<subseteq> {Dep_storage, Dep_embedding, Dep_reranker})"
  using assistant_deps [of w c]
  by (auto simp add: storage_deps embedding_deps reranker_deps)

lemma storage_passes_effects:
  assumes "storage_passes w c"
  shows "result (healthCmd w c) = result (health_embedding w c)"
    and "probed (healthCmd w c) = remdups_adj (Dep_storage # deps (health_embedding w c))"
  using assms
  by (auto simp: healthCmd_def storage_passes_def Let_def probed_deps
           split: sum.splits option.splits)

lemma embedding_passes_effects:
  assumes "embedding_passes w c"
  shows "result (health_embedding w c) = result (health_reranker w c)"
    and "deps (health_embedding w c) = Dep_embedding # deps (health_reranker w c)"
  using assms
  by (auto simp: health_embedding_def embedding_passes_def embedding_answer_def Let_def
           split: sum.splits list.splits)

lemma reranker_passes_effects:
  assumes "reranker_passes w c"
  shows "result (health_reranker w c) = result (health_assistant w c)"
    and "deps (health_reranker w c) = Dep_reranker # deps (health_assistant w c)"
  using assms
  by (auto simp: health_reranker_def reranker_passes_def Let_def split: option.splits)

text \<open>
  Claim C3. The health operation checks its four dependencies one after the other in the
  fixed order storage, embedding, reranker, completion: the dependencies it has probed are
  always an initial segment of that order. It succeeds exactly when all four checks pass, and
  after the first check that does not pass no later dependency is probed.
\<close>

theorem healthCmd_sequential_fail_fast:
  "prefix (probed (healthCmd w c)) [Dep_storage, Dep_embedding, Dep_reranker, Dep_completion] \<and>
   ((result (healthCmd w c) = Return None) =
      (storage_passes w c \<and> embedding_passes w c \<and> reranker_passes w c \<and> completion_passes w c)) \<and>
   (\<not> storage_passes w c \<longrightarrow> set (probed (healthCmd w c)) \<subseteq> {Dep_storage}) \<and>
   (\<not> embedding_passes w c \<longrightarrow> set (probed (healthCmd w c)) \<subseteq> {Dep_storage, Dep_embedding}) \<and>
   (\<not> reranker_passes w c \<longrightarrow>
      set (probed (healthCmd w c)) \<subseteq> {Dep_storage, Dep_embedding, Dep_reranker})"
  using health_order [of w c] health_ok [of w c] health_fail_fast [of w c] by blast

theorem healthCmd_sequential_fail_fast_witness:
  "\<not> embedding_passes embedding_down example_command \<and>
   probed (healthCmd embedding_down example_command) = [Dep_storage, Dep_embedding] \<and>
   set (probed (healthCmd embedding_down example_command)) \<subseteq> {Dep_storage, Dep_embedding} \<and>
   result (healthCmd embedding_down example_command) \<noteq> Return None \<and>
   result (healthCmd example_world example_command) = Return None \<and>
   probed (healthCmd example_world example_command) =
     [Dep_storage, Dep_embedding, Dep_reranker, Dep_completion]"
proof -
  have down: "\<not> embedding_passes embedding_down example_command"
    by (simp add: embedding_passes_def embedding_answer_def example_defs)
  have probes: "probed (healthCmd embedding_down example_command) = [Dep_storage, Dep_embedding]"
    by (simp add: health_defs example_defs Let_def probed_deps)
  have up: "storage_passes example_world example_command \<and>
            embedding_passes example_world example_command \<and>
            reranker_passes example_world example_command \<and>
            completion_passes example_world example_command"
    by (simp add: health_defs example_defs)
  have all: "probed (healthCmd example_world example_command) =
     [Dep_storage, Dep_embedding, Dep_reranker, Dep_completion]"
    by (simp add: health_defs example_defs Let_def probed_deps)
  show ?thesis
    using down probes up all
      healthCmd_sequential_fail_fast [of embedding_down example_command]
      healthCmd_sequential_fail_fast [of example_world example_command]
    by simp
qed

text \<open>
  Claim C2, as amended. When storage, embedding and reranker pass and the completion call
  fails, the health operation returns the very error value the completion client returned,
  after having probed all four dependencies. The action builds no error of its own around it
  and attaches no dependency tag.
\<close>

theorem healthCmd_completion_error_unchanged:
  assumes "storage_passes w c" and "embedding_passes w c" and "reranker_passes w c"
    and "String c ''assistant-base-url'' \<noteq> []" and "String c ''assistant-model'' \<noteq> []"
    and "completion_answer w c = Inl err"
  shows "result (healthCmd w c) = Return (Some err) \<and>
         probed (healthCmd w c) = [Dep_storage, Dep_embedding, Dep_reranker, Dep_completion]"
proof -
  have "result (health_assistant w c) = Return (Some err)"
    and "deps (health_assistant w c) = [Dep_completion]"
    using assms(4-6) by (simp_all add: health_assistant_def completion_answer_def Let_def)
  then show ?thesis
    using assms(1-3)
    by (simp add: storage_passes_effects embedding_passes_effects reranker_passes_effects)
qed

theorem healthCmd_completion_error_unchanged_witness:
  "storage_passes completion_down example_command \<and>
   embedding_passes completion_down example_command \<and>
   reranker_passes completion_down example_command \<and>
   String example_command ''assistant-base-url'' \<noteq> [] \<and>
   String example_command ''assistant-model'' \<noteq> [] \<and>
   completion_answer completion_down example_command = Inl (Foreign ''context canceled'') \<and>
   result (healthCmd completion_down example_command) = Return (Some (Foreign ''context canceled'')) \<and>
   probed (healthCmd completion_down example_command) =
     [Dep_storage, Dep_embedding, Dep_reranker, Dep_completion]"
proof -
  have h: "storage_passes completion_down example_command"
    "embedding_passes completion_down example_command"
    "reranker_passes completion_down example_command"
    "String example_command ''assistant-base-url'' \<noteq> []"
    "String example_command ''assistant-model'' \<noteq> []"
    "completion_answer completion_down example_command = Inl (Foreign ''context canceled'')"
    by (simp_all add: storage_passes_def embedding_passes_def reranker_passes_def
          embedding_answer_def completion_answer_def example_defs)
  show ?thesis
    using h healthCmd_completion_error_unchanged [OF h] by simp
qed

text \<open>
  Claim C2 as stated fails: a run in which only the completion call fails and a run in
  which the embedding call fails with the same error value return the same error, so the
  returned error does not name the dependency that failed.
\<close>

theorem healthCmd_error_untagged_counterexample:
  "storage_passes completion_down example_command \<and>
   embedding_passes completion_down example_command \<and>
   reranker_passes completion_down example_command \<and>
   completion_answer completion_down example_command = Inl (Foreign ''context canceled'') \<and>
   storage_passes embedding_down example_command \<and>
   embedding_answer embedding_down example_command = Inl (Foreign ''context canceled'') \<and>
   result (healthCmd completion_down example_command) =
     Return (Some (Foreign ''context canceled'')) \<and>
   result (healthCmd embedding_down example_command) =
     result (healthCmd completion_down example_command)"
  by (simp add: health_defs example_defs Let_def)

text \<open>
  Claim C4, as amended. Once the embedding endpoint has answered, the health check fails
  at the embedding stage with the error \<open>empty response\<close> if and only if the response has
  no result or the vector of its first result is empty; a response whose first result has a
  non-empty vector passes, and the action goes on to the reranker block.
\<close>

theorem healthCmd_embedding_empty_response:
  assumes "storage_passes w c"
    and "String c ''embedding-base-url'' \<noteq> []" and "String c ''embedding-model'' \<noteq> []"
    and "embedding_answer w c = Inr response"
  shows "((result (healthCmd w c) = Return (Some (New ''empty response'')) \<and>
           probed (healthCmd w c) = [Dep_storage, Dep_embedding]) =
          (case Data response of [] \<Rightarrow> True | d # ds \<Rightarrow> Embedding d = [])) \<and>
         ((case Data response of [] \<Rightarrow> False | d # ds \<Rightarrow> Embedding d \<noteq> []) \<longrightarrow>
            result (healthCmd w c) = result (health_reranker w c) \<and>
            probed (healthCmd w c) =
              [Dep_storage, Dep_embedding] @ deps (health_reranker w c))"
proof (cases "case Data response of [] \<Rightarrow> True | d # ds \<Rightarrow> Embedding d = []")
  case True
  then have "result (health_embedding w c) = Return (Some (New ''empty response''))"
    and "deps (health_embedding w c) = [Dep_embedding]"
    using assms(2-4)
    by (auto simp: health_embedding_def embedding_answer_def Let_def split: list.splits)
  with True show ?thesis
    using assms(1) by (auto simp: storage_passes_effects split: list.splits)
next
  case False
  then have pass: "embedding_passes w c"
    using assms(2-4) by (auto simp: embedding_passes_def split: list.splits)
  have r: "deps (health_reranker w c) = [] \<or> deps (health_reranker w c) = [Dep_reranker]
      \<or> deps (health_reranker w c) = [Dep_reranker, Dep_completion]"
    using assistant_deps [of w c] by (auto simp: reranker_deps)
  have "result (health_reranker w c) = Return (Some (New ''empty response''))
        \<Longrightarrow> deps (health_reranker w c) \<noteq> []"
    by (auto simp: health_reranker_def Let_def split: option.splits if_splits)
  with False r show ?thesis
    using assms(1) pass
    by (auto simp: storage_passes_effects embedding_passes_effects split: list.splits)
qed

theorem healthCmd_embedding_empty_response_witness:
  "storage_passes embedding_second_only example_command \<and>
   String example_command ''embedding-base-url'' \<noteq> [] \<and>
   String example_command ''embedding-model'' \<noteq> [] \<and>
   embedding_answer embedding_second_only example_command = Inr second_vector_only \<and>
   result (healthCmd embedding_second_only example_command) = Return (Some (New ''empty response'')) \<and>
   probed (healthCmd embedding_second_only example_command) = [Dep_storage, Dep_embedding] \<and>
   embedding_answer example_world example_command = Inr \<lparr>Data = [\<lparr>Embedding = [1, 2, 3]\<rparr>]\<rparr> \<and>
   result (healthCmd example_world example_command) =
     result (health_reranker example_world example_command)"
proof -
  have h: "storage_passes embedding_second_only example_command"
    "String example_command ''embedding-base-url'' \<noteq> []"
    "String example_command ''embedding-model'' \<noteq> []"
    "embedding_answer embedding_second_only example_command = Inr second_vector_only"
    by (simp_all add: storage_passes_def embedding_answer_def example_defs)
  have k: "storage_passes example_world example_command"
    "embedding_answer example_world example_command = Inr \<lparr>Data = [\<lparr>Embedding = [1, 2, 3]\<rparr>]\<rparr>"
    by (simp_all add: storage_passes_def embedding_answer_def example_defs)
  show ?thesis
    using h k healthCmd_embedding_empty_response [OF h]
      healthCmd_embedding_empty_response [OF k(1) h(2) h(3) k(2)]
    by (simp add: second_vector_only_def)
qed

text \<open>
  Claim C4 as stated fails in its last clause: a response whose second result has a
  non-empty vector, but whose first result has an empty one, is rejected as an empty
  response.
\<close>

theorem healthCmd_some_vector_nonempty_counterexample:
  "embedding_answer embedding_second_only example_command = Inr second_vector_only \<and>
   Embedding (Data second_vector_only ! 1) \<noteq> [] \<and>
   result (healthCmd embedding_second_only example_command) =
     Return (Some (New ''empty response'')) \<and>
   probed (healthCmd embedding_second_only example_command) = [Dep_storage, Dep_embedding]"
  by (simp add: health_defs example_defs Let_def probed_deps)

section \<open>The process exit code\<close>

text \<open>
  Claim C1, as amended. When the command returns an error, the process logs that error
  once under the message \<open>Unexpected error\<close> and then exits with status 0; when the
  command returns no error, nothing is logged and the process exits with status 0 as well.
\<close>

theorem main_logs_error_and_exits_zero:
  "(result (cmd_Run w sub c) = Return (Some err) \<longrightarrow>
      logged (main w sub c) = [(''Unexpected error'', err)] \<and> exit_code (main w sub c) = 0) \<and>
   (result (cmd_Run w sub c) = Return None \<longrightarrow>
      logged (main w sub c) = [] \<and> exit_code (main w sub c) = 0)"
  by (simp add: main_def Let_def)

lemma scan_no_path: "cmd_Run example_world scan no_path =
    \<lparr>effects = [], result = Return (Some (New ''path is required''))\<rparr>"
  by (simp add: cmd_Run_def scanCmd_def example_defs Let_def outcome_defs)

theorem main_logs_error_and_exits_zero_witness:
  "result (cmd_Run example_world scan no_path) = Return (Some (New ''path is required'')) \<and>
   logged (main example_world scan no_path) = [(''Unexpected error'', New ''path is required'')] \<and>
   exit_code (main example_world scan no_path) = 0"
  using main_logs_error_and_exits_zero
    [of example_world scan no_path "New ''path is required''"]
  by (simp add: scan_no_path)

text \<open>
  Claim C1 as stated fails: \<open>scan\<close> without a path returns the error
  \<open>path is required\<close>, and the process exits with status 0.
\<close>

theorem main_exit_code_counterexample:
  "result (cmd_Run example_world scan no_path) = Return (Some (New ''path is required'')) \<and>
   exit_code (main example_world scan no_path) = 0"
  by (simp add: main_def scan_no_path Let_def)

section \<open>The scan command: decoding and the walk\<close>

text \<open>
  With unknown fields disallowed, a key that matches no field makes the decoder fail,
  at the top level and inside the chunk list.
\<close>

lemma decode_chunk_record_unknown:
  "list_ex (\<lambda>(k, v). field k = None) kvs \<Longrightarrow> isl (decode_chunk_record field True kvs c)"
  by (induction kvs arbitrary: c)
     (auto split: option.split chunk_field.split json.split)

lemma decode_chunks_unknown:
  "list_ex (chunk_has_unknown_field w) js \<Longrightarrow> isl (decode_chunks (chunk_record_field w) True js)"
proof (induction js)
  case Nil
  then show ?case by simp
next
  case (Cons j js)
  show ?case
  proof (cases "chunk_has_unknown_field w j")
    case True
    then obtain kvs where j: "j = JObject kvs"
      and ex: "list_ex (\<lambda>(k, v). chunk_record_field w k = None) kvs"
      by (auto simp: chunk_has_unknown_field_def split: json.splits)
    from decode_chunk_record_unknown [OF ex]
    obtain e where "decode_chunk_record (chunk_record_field w) True kvs
        \<lparr>chunk_index = 0, chunk_text = []\<rparr> = Inl e"
      by (auto simp: isl_def)
    then show ?thesis by (simp add: j)
  next
    case False
    with Cons obtain e where "decode_chunks (chunk_record_field w) True js = Inl e"
      by (auto simp: isl_def)
    then show ?thesis by (auto split: sum.split json.split)
  qed
qed

lemma decode_chunks_Inr:
  "decode_chunks (chunk_record_field w) True js = Inr cs
    \<Longrightarrow> \<not> list_ex (chunk_has_unknown_field w) js"
  using decode_chunks_unknown [of w js] by auto

lemma decode_Document_unknown:
  "list_ex (\<lambda>(k, v).
      case Document_field w k of
        None \<Rightarrow> True
      | Some F_raw_document \<Rightarrow> False
      | Some F_chunks \<Rightarrow>
          (case v of JArray js \<Rightarrow> list_ex (chunk_has_unknown_field w) js | _ \<Rightarrow> False)) kvs
   \<Longrightarrow> isl (decode_Document (Document_field w) (chunk_record_field w) True kvs doc)"
proof (induction kvs arbitrary: doc)
  case Nil
  then show ?case by simp
next
  case (Cons kv kvs)
  obtain k v where kv: "kv = (k, v)" by (cases kv)
  show ?case
    using Cons
    by (auto simp: kv isl_def dest: decode_chunks_Inr
             split: option.split document_field.split json.split sum.split)
qed

lemma Decode_unknown:
  "has_unknown_field w buf \<Longrightarrow> isl (Decode w (DisallowUnknownFields (NewDecoder buf)))"
  using decode_Document_unknown [of w]
  by (auto simp: has_unknown_field_def Decode_def DisallowUnknownFields_def NewDecoder_def
           split: option.splits json.splits)

text \<open>
  Claim C5. Every file the scan ingests is decoded by a decoder on which
  \<open>DisallowUnknownFields\<close> has been called: a descriptor with a field outside the schema
  fails to decode, and whenever decoding fails the walk function returns the decoder's error
  having only read the file, so \<open>UpsertDocumentChunks\<close> is not called for it.
\<close>

theorem scan_visit_unknown_field_aborts_before_upsert:
  assumes "\<not> IsDir d" and "g (Name d)" and "os_ReadFile w path = Inr buf"
  shows "(has_unknown_field w buf \<longrightarrow> isl (Decode w (DisallowUnknownFields (NewDecoder buf)))) \<and>
         (\<forall>e. Decode w (DisallowUnknownFields (NewDecoder buf)) = Inl e \<longrightarrow>
            scan_visit w g r path (Some d) None =
              \<lparr>effects = [Call_ReadFile path], result = Return (Some e)\<rparr>)"
  using assms Decode_unknown [of w buf]
  by (simp add: scan_visit_def Let_def outcome_defs)

theorem scan_visit_unknown_field_aborts_before_upsert_witness:
  "\<not> IsDir (File ''b.chunks.json'') \<and> chunks_glob (Name (File ''b.chunks.json'')) \<and>
   os_ReadFile example_world ''docs/more/b.chunks.json'' =
     Inr (Some (JObject (descriptor ''b.md'' @ [(''author'', JString ''nobody'')]))) \<and>
   has_unknown_field example_world
     (Some (JObject (descriptor ''b.md'' @ [(''author'', JString ''nobody'')]))) \<and>
   scan_visit example_world chunks_glob scan_RAG ''docs/more/b.chunks.json''
      (Some (File ''b.chunks.json'')) None =
     \<lparr>effects = [Call_ReadFile ''docs/more/b.chunks.json''],
      result = Return (Some (Foreign ''json: unknown field author''))\<rparr>"
proof -
  let ?buf = "Some (JObject (descriptor ''b.md'' @ [(''author'', JString ''nobody'')]))"
  have h: "\<not> IsDir (File ''b.chunks.json'')" "chunks_glob (Name (File ''b.chunks.json''))"
    "os_ReadFile example_world ''docs/more/b.chunks.json'' = Inr ?buf"
    by (simp_all add: example_defs2)
  have u: "has_unknown_field example_world ?buf"
    by (simp add: has_unknown_field_def example_defs2)
  have d: "Decode example_world (DisallowUnknownFields (NewDecoder ?buf)) =
      Inl (Foreign ''json: unknown field author'')"
    by (simp add: decode_defs example_defs2)
  show ?thesis
    using h u d
      scan_visit_unknown_field_aborts_before_upsert
        [of "File ''b.chunks.json''" chunks_glob example_world
            "''docs/more/b.chunks.json''" ?buf scan_RAG]
    by simp
qed

text \<open>
  A walk is the run of the walk function over the calls it would make, cut at the first
  call that does not return \<open>nil\<close>.
\<close>

lemma run_visits_append:
  "run_visits fn (us @ vs) = and_then (run_visits fn us) (run_visits fn vs)"
  by (induction us) (auto simp: and_then_assoc)

lemma walkDir_visits:
  "walkDir fn path d = run_visits fn (visits path d)"
  "walkDir_entries fn path ds = run_visits fn (visits_entries path ds)"
  by (induction fn path d and fn path ds rule: walkDir_walkDir_entries.induct)
     (simp_all add: run_visits_append)

lemma run_visits_all_nil:
  "\<forall>(p, d, e) \<in> set us. result (fn p d e) = Return None \<Longrightarrow> result (run_visits fn us) = Return None"
  by (induction us) (auto simp: and_then_def)

lemma run_visits_stops:
  assumes "result (fn p d e) \<noteq> Return None"
  shows "run_visits fn (us @ (p, d, e) # vs) = run_visits fn (us @ [(p, d, e)])"
  using assms by (simp add: run_visits_append and_then_stops)

lemma scan_visit_file_failure:
  assumes "g name" and "file_failure w r path = Some err"
  shows "result (scan_visit w g r path (Some (File name)) None) = Return (Some err)"
  using assms
  by (auto simp: scan_visit_def file_failure_def Let_def split: sum.splits)

text \<open>
  Claim C10. When reading, decoding or upserting a matched file fails, and every call of
  the walk function before it returned \<open>nil\<close>, the scan returns that error and its
  outcome is the outcome of the walk cut after that file: nothing that follows it in the tree
  is read or upserted.
\<close>

theorem scanCmd_aborts_walk_at_first_failure:
  assumes "StringArg c ''path'' \<noteq> []"
    and "glob_Compile w (String c ''glob'') = Inr g"
    and "rag_OpenDB w (String c ''dsn'') = Inr db"
    and "r = \<lparr>DB = db, Client = None, Model = []\<rparr>"
    and "os_Lstat w (StringArg c ''path'') = Inr tree"
    and "visits (StringArg c ''path'') tree = before @ (path, Some (File name), None) # after"
    and "\<forall>(p, d, e) \<in> set before. result (scan_visit w g r p d e) = Return None"
    and "g name"
    and "file_failure w r path = Some err"
  shows "result (scanCmd w c) = Return (Some err) \<and>
         scanCmd w c =
           emit (Call_OpenDB (String c ''dsn''))
             (run_visits (scan_visit w g r) (before @ [(path, Some (File name), None)]))"
proof -
  let ?fn = "scan_visit w g r"
  let ?v = "(path, Some (File name), None)"
  have fails: "result (?fn path (Some (File name)) None) = Return (Some err)"
    using assms(8,9) by (rule scan_visit_file_failure)
  have cmd: "scanCmd w c =
      emit (Call_OpenDB (String c ''dsn'')) (run_visits ?fn (before @ ?v # after))"
    using assms(1-6) by (simp add: scanCmd_def WalkDir_def Let_def walkDir_visits)
  have stop: "run_visits ?fn (before @ ?v # after) = run_visits ?fn (before @ [?v])"
    using fails by (intro run_visits_stops) simp
  have "result (run_visits ?fn before) = Return None"
    using assms(7) by (rule run_visits_all_nil)
  then have "result (run_visits ?fn (before @ [?v])) = Return (Some err)"
    using fails by (simp add: run_visits_append and_then_def)
  with cmd stop show ?thesis by simp
qed

lemma example_visits:
  "visits ''docs'' example_tree =
    [(''docs'', Some example_tree, None),
     (''docs/a.chunks.json'', Some (File ''a.chunks.json''), None),
     (''docs/more'', Some (Dir ''more'' [File ''b.chunks.json'']), None)]
    @ (''docs/more/b.chunks.json'', Some (File ''b.chunks.json''), None)
    # [(''docs/notes.txt'', Some (File ''notes.txt''), None),
       (''docs/z.chunks.json'', Some (File ''z.chunks.json''), None)]"
  by (simp add: example_tree_def Join_def)

lemma example_visit_a:
  "scan_visit example_world chunks_glob scan_RAG ''docs/a.chunks.json''
     (Some (File ''a.chunks.json'')) None =
   \<lparr>effects = [Call_ReadFile ''docs/a.chunks.json'',
               Call_UpsertDocumentChunks scan_RAG
                 \<lparr>raw_document = ''a.md'',
                  chunk_records = [\<lparr>chunk_index = 0, chunk_text = ''Munich is in Germany.''\<rparr>]\<rparr>],
    result = Return None\<rparr>"
  by (simp add: scan_visit_def decode_defs example_defs2 Let_def outcome_defs)

lemma example_visit_b:
  "scan_visit example_world chunks_glob scan_RAG ''docs/more/b.chunks.json''
     (Some (File ''b.chunks.json'')) None =
   \<lparr>effects = [Call_ReadFile ''docs/more/b.chunks.json''],
    result = Return (Some (Foreign ''json: unknown field author''))\<rparr>"
  by (simp add: scan_visit_def decode_defs example_defs2 Let_def outcome_defs)

lemma example_visit_dirs:
  "scan_visit example_world chunks_glob scan_RAG ''docs'' (Some example_tree) None = return_nil"
  "scan_visit example_world chunks_glob scan_RAG ''docs/more''
     (Some (Dir ''more'' [File ''b.chunks.json''])) None = return_nil"
  by (simp_all add: scan_visit_def example_tree_def)

theorem scanCmd_aborts_walk_at_first_failure_witness:
  "StringArg example_command ''path'' \<noteq> [] \<and>
   glob_Compile example_world (String example_command ''glob'') = Inr chunks_glob \<and>
   rag_OpenDB example_world (String example_command ''dsn'') = Inr (Handle ''postgres://db/rag'') \<and>
   os_Lstat example_world (StringArg example_command ''path'') = Inr example_tree \<and>
   chunks_glob ''b.chunks.json'' \<and>
   file_failure example_world scan_RAG ''docs/more/b.chunks.json'' =
     Some (Foreign ''json: unknown field author'') \<and>
   scanCmd example_world example_command =
     \<lparr>effects =
        [Call_OpenDB ''postgres://db/rag'',
         Call_ReadFile ''docs/a.chunks.json'',
         Call_UpsertDocumentChunks scan_RAG
           \<lparr>raw_document = ''a.md'',
            chunk_records = [\<lparr>chunk_index = 0, chunk_text = ''Munich is in Germany.''\<rparr>]\<rparr>,
         Call_ReadFile ''docs/more/b.chunks.json''],
      result = Return (Some (Foreign ''json: unknown field author''))\<rparr>"
proof -
  have p: "StringArg example_command ''path'' = ''docs''"
    and d: "String example_command ''dsn'' = ''postgres://db/rag''"
    by (simp_all add: example_command_def)
  have h1: "StringArg example_command ''path'' \<noteq> []" by (simp add: p)
  have h2: "glob_Compile example_world (String example_command ''glob'') = Inr chunks_glob"
    by (simp add: example_world_def chunks_glob_def fun_eq_iff)
  have h3: "rag_OpenDB example_world (String example_command ''dsn'') =
      Inr (Handle ''postgres://db/rag'')"
    by (simp add: d example_world_def)
  have h4: "scan_RAG = \<lparr>DB = Handle ''postgres://db/rag'', Client = None, Model = []\<rparr>"
    by (simp add: scan_RAG_def)
  have h5: "os_Lstat example_world (StringArg example_command ''path'') = Inr example_tree"
    by (simp add: example_world_def)
  have h6: "visits (StringArg example_command ''path'') example_tree =
    [(''docs'', Some example_tree, None),
     (''docs/a.chunks.json'', Some (File ''a.chunks.json''), None),
     (''docs/more'', Some (Dir ''more'' [File ''b.chunks.json'']), None)]
    @ (''docs/more/b.chunks.json'', Some (File ''b.chunks.json''), None)
    # [(''docs/notes.txt'', Some (File ''notes.txt''), None),
       (''docs/z.chunks.json'', Some (File ''z.chunks.json''), None)]"
    unfolding p by (rule example_visits)
  have h7: "\<forall>(p, d, e) \<in> set
      [(''docs'', Some example_tree, None),
       (''docs/a.chunks.json'', Some (File ''a.chunks.json''), None),
       (''docs/more'', Some (Dir ''more'' [File ''b.chunks.json'']), None)].
      result (scan_visit example_world chunks_glob scan_RAG p d e) = Return None"
    by (simp add: example_visit_a example_visit_dirs)
  have h8: "chunks_glob ''b.chunks.json''" by (simp add: chunks_glob_def)
  have h9: "file_failure example_world scan_RAG ''docs/more/b.chunks.json'' =
      Some (Foreign ''json: unknown field author'')"
    by (simp add: file_failure_def decode_defs example_defs2)
  from scanCmd_aborts_walk_at_first_failure [OF h1 h2 h3 h4 h5 h6 h7 h8 h9]
  have "scanCmd example_world example_command =
      emit (Call_OpenDB ''postgres://db/rag'')
        (run_visits (scan_visit example_world chunks_glob scan_RAG)
          [(''docs'', Some example_tree, None),
           (''docs/a.chunks.json'', Some (File ''a.chunks.json''), None),
           (''docs/more'', Some (Dir ''more'' [File ''b.chunks.json'']), None),
           (''docs/more/b.chunks.json'', Some (File ''b.chunks.json''), None)])"
    by (simp add: d)
  then have "scanCmd example_world example_command =
     \<lparr>effects =
        [Call_OpenDB ''postgres://db/rag'',
         Call_ReadFile ''docs/a.chunks.json'',
         Call_UpsertDocumentChunks scan_RAG
           \<lparr>raw_document = ''a.md'',
            chunk_records = [\<lparr>chunk_index = 0, chunk_text = ''Munich is in Germany.''\<rparr>]\<rparr>,
         Call_ReadFile ''docs/more/b.chunks.json''],
      result = Return (Some (Foreign ''json: unknown field author''))\<rparr>"
    by (simp add: example_visit_a example_visit_b example_visit_dirs and_then_def outcome_defs)
  with h1 h2 h3 h5 h8 h9 show ?thesis by simp
qed

section \<open>The serve, compute and get commands\<close>

text \<open>
  Claim C6. Once the database is open, the serve action returns no error when
  \<open>Start\<close> returns \<open>nil\<close> and when it returns \<open>http.ErrServerClosed\<close> (or an
  error wrapping it); every other error of \<open>Start\<close> is returned unchanged.
\<close>

theorem serveCmd_Start_closed_is_success:
  assumes "rag_OpenDB w (String c ''dsn'') = Inr db"
    and "Server_Start w \<lparr>DB = db, Client = Some (String c ''base_url''), Model = String c ''model''\<rparr>
           (String c ''bind'') = started"
  shows "(started = None \<longrightarrow> result (serveCmd w c) = Return None) \<and>
         (started = Some ErrServerClosed \<longrightarrow> result (serveCmd w c) = Return None) \<and>
         (\<forall>err. started = Some err \<and> errors_Is err ErrServerClosed \<longrightarrow>
            result (serveCmd w c) = Return None) \<and>
         (\<forall>err. started = Some err \<and> \<not> errors_Is err ErrServerClosed \<longrightarrow>
            result (serveCmd w c) = Return (Some err))"
  using assms by (auto simp: serveCmd_def Let_def)

theorem serveCmd_Start_closed_is_success_witness:
  "rag_OpenDB example_world (String example_command ''dsn'') = Inr (Handle ''postgres://db/rag'') \<and>
   result (serveCmd example_world example_command) = Return None \<and>
   \<not> errors_Is (Foreign ''listen tcp :5000: bind: address already in use'') ErrServerClosed \<and>
   result (serveCmd start_fails example_command) =
     Return (Some (Foreign ''listen tcp :5000: bind: address already in use''))"
proof -
  have a: "rag_OpenDB example_world (String example_command ''dsn'') = Inr (Handle ''postgres://db/rag'')"
    "rag_OpenDB start_fails (String example_command ''dsn'') = Inr (Handle ''postgres://db/rag'')"
    by (simp_all add: example_defs2)
  have b: "Server_Start example_world
      \<lparr>DB = Handle ''postgres://db/rag'', Client = Some (String example_command ''base_url''),
       Model = String example_command ''model''\<rparr> (String example_command ''bind'') =
      Some ErrServerClosed"
    "Server_Start start_fails
      \<lparr>DB = Handle ''postgres://db/rag'', Client = Some (String example_command ''base_url''),
       Model = String example_command ''model''\<rparr> (String example_command ''bind'') =
      Some (Foreign ''listen tcp :5000: bind: address already in use'')"
    by (simp_all add: example_defs2)
  show ?thesis
    using a(1) serveCmd_Start_closed_is_success [OF a(1) b(1)]
      serveCmd_Start_closed_is_success [OF a(2) b(2)]
    by simp
qed

text \<open>
  Claim C8. Every call of \<open>ComputeEmbeddings\<close> the compute action makes carries the
  negation of the \<open>force\<close> flag as its second argument; when the database opens, the
  action makes exactly one such call and returns its result. With the flag at its declared
  default the argument is true, with \<open>--force\<close> it is false.
\<close>

theorem computeCmd_skip_existing_is_not_force:
  "(\<forall>r skip_existing. Call_ComputeEmbeddings r skip_existing \<in> set (effects (computeCmd w c)) \<longrightarrow>
      skip_existing = (\<not> Bool c ''force'')) \<and>
   (\<forall>db. rag_OpenDB w (String c ''dsn'') = Inr db \<longrightarrow>
      effects (computeCmd w c) =
        [Call_OpenDB (String c ''dsn''),
         Call_ComputeEmbeddings
           \<lparr>DB = db, Client = Some (String c ''base_url''), Model = String c ''model''\<rparr>
           (\<not> Bool c ''force'')] \<and>
      result (computeCmd w c) =
        Return (ComputeEmbeddings w
           \<lparr>DB = db, Client = Some (String c ''base_url''), Model = String c ''model''\<rparr>
           (\<not> Bool c ''force''))) \<and>
   (Bool c ''force'' = computeCmd_force_Value \<longrightarrow>
      (\<forall>r skip_existing. Call_ComputeEmbeddings r skip_existing \<in> set (effects (computeCmd w c)) \<longrightarrow>
         skip_existing))"
proof (cases "rag_OpenDB w (String c ''dsn'')")
  case (Inl err)
  then show ?thesis by (simp add: computeCmd_def Let_def)
next
  case (Inr db)
  then show ?thesis by (simp add: computeCmd_def computeCmd_force_Value_def Let_def)
qed

theorem computeCmd_skip_existing_is_not_force_witness:
  "Bool example_command ''force'' = computeCmd_force_Value \<and>
   effects (computeCmd example_world example_command) =
     [Call_OpenDB ''postgres://db/rag'',
      Call_ComputeEmbeddings
        \<lparr>DB = Handle ''postgres://db/rag'', Client = Some ''http://embed/v1'', Model = ''bge-m3''\<rparr>
        True] \<and>
   Bool forced ''force'' \<and>
   effects (computeCmd example_world forced) =
     [Call_OpenDB ''postgres://db/rag'',
      Call_ComputeEmbeddings
        \<lparr>DB = Handle ''postgres://db/rag'', Client = Some ''http://embed/v1'', Model = ''bge-m3''\<rparr>
        False]"
proof -
  have a: "rag_OpenDB example_world (String example_command ''dsn'') = Inr (Handle ''postgres://db/rag'')"
    "rag_OpenDB example_world (String forced ''dsn'') = Inr (Handle ''postgres://db/rag'')"
    by (simp_all add: example_defs2)
  have b: "Bool example_command ''force'' = computeCmd_force_Value" "Bool forced ''force''"
    by (simp_all add: example_defs2 computeCmd_force_Value_def)
  have s: "String example_command ''dsn'' = ''postgres://db/rag''"
    "String example_command ''base_url'' = ''http://embed/v1''"
    "String example_command ''model'' = ''bge-m3''"
    "String forced ''dsn'' = ''postgres://db/rag''"
    "String forced ''base_url'' = ''http://embed/v1''"
    "String forced ''model'' = ''bge-m3''"
    by (simp_all add: example_defs2)
  from computeCmd_skip_existing_is_not_force [of example_world example_command]
  have 1: "effects (computeCmd example_world example_command) =
     [Call_OpenDB ''postgres://db/rag'',
      Call_ComputeEmbeddings
        \<lparr>DB = Handle ''postgres://db/rag'', Client = Some ''http://embed/v1'', Model = ''bge-m3''\<rparr>
        True]"
    using a(1) b(1) by (simp add: s(1-3) computeCmd_force_Value_def)
  from computeCmd_skip_existing_is_not_force [of example_world forced]
  have 2: "effects (computeCmd example_world forced) =
     [Call_OpenDB ''postgres://db/rag'',
      Call_ComputeEmbeddings
        \<lparr>DB = Handle ''postgres://db/rag'', Client = Some ''http://embed/v1'', Model = ''bge-m3''\<rparr>
        False]"
    using a(2) b(2) by (simp add: s(4-6))
  show ?thesis using 1 2 b by simp
qed

text \<open>
  Claim C9. After a lookup the get action behaves the same whatever error the lookup
  returned: it reads the text of the returned chunk, which panics when the pointer is
  \<open>nil\<close>, and otherwise prints the text and returns \<open>nil\<close>. The error of the lookup
  never reaches the result of the command.
\<close>

theorem getChunkCmd_ignores_lookup_error:
  assumes "StringArg c ''id'' \<noteq> []"
    and "rag_OpenDB w (String c ''dsn'') = Inr db"
    and "GetDocumentChunk w \<lparr>DB = db, Client = None, Model = []\<rparr> (StringArg c ''id'') = (found, err)"
  shows "getChunkCmd w c =
    (case found of
       None \<Rightarrow>
         \<lparr>effects = [Call_OpenDB (String c ''dsn''),
                     Call_GetDocumentChunk \<lparr>DB = db, Client = None, Model = []\<rparr> (StringArg c ''id'')],
          result = Panic ''invalid memory address or nil pointer dereference''\<rparr>
     | Some chunk \<Rightarrow>
         \<lparr>effects = [Call_OpenDB (String c ''dsn''),
                     Call_GetDocumentChunk \<lparr>DB = db, Client = None, Model = []\<rparr> (StringArg c ''id''),
                     Println (Chunk_Text chunk)],
          result = Return None\<rparr>)"
  using assms by (simp add: getChunkCmd_def Let_def outcome_defs split: option.split)

theorem getChunkCmd_ignores_lookup_error_witness:
  "StringArg example_command ''id'' \<noteq> [] \<and>
   rag_OpenDB example_world (String example_command ''dsn'') = Inr (Handle ''postgres://db/rag'') \<and>
   GetDocumentChunk example_world scan_RAG (StringArg example_command ''id'') =
     (None, Some (Foreign ''record not found'')) \<and>
   getChunkCmd example_world example_command =
     \<lparr>effects = [Call_OpenDB ''postgres://db/rag'', Call_GetDocumentChunk scan_RAG ''42''],
      result = Panic ''invalid memory address or nil pointer dereference''\<rparr>"
proof -
  have h: "StringArg example_command ''id'' \<noteq> []"
    "rag_OpenDB example_world (String example_command ''dsn'') = Inr (Handle ''postgres://db/rag'')"
    "GetDocumentChunk example_world \<lparr>DB = Handle ''postgres://db/rag'', Client = None, Model = []\<rparr>
       (StringArg example_command ''id'') = (None, Some (Foreign ''record not found''))"
    by (simp_all add: example_defs2)
  have s: "String example_command ''dsn'' = ''postgres://db/rag''"
    "StringArg example_command ''id'' = ''42''"
    by (simp_all add: example_defs2)
  show ?thesis
    using h getChunkCmd_ignores_lookup_error [OF h]
    by (simp add: s scan_RAG_def)
qed

end
